theory Spec2Isabelle
  imports Main "HOL-Library.Word" "HOL-Library.AList"
begin

section \<open>Native values\<close>

text \<open>
  The dynamic values that \<open>python_service/executor.py\<close> converts. A Python \<open>int\<close> is
  unbounded, a \<open>float\<close> is an IEEE double (kept as its 64 bits: the codec only copies
  it), a \<open>dict\<close> is an insertion-ordered list of items whose keys are strings.
  \<open>PObject s\<close> stands for a value of any other class (a tuple, a set, a function, ...),
  where \<open>s\<close> is the text that \<open>str(value)\<close> returns for it.
\<close>

type_synonym pyfloat = "64 word"

datatype pyval =
    PNone
  | PStr string
  | PInt int
  | PFloat pyfloat
  | PBool bool
  | PList "pyval list"
  | PDict "(string \<times> pyval) list"
  | PObject string

datatype pytype =
  T_NoneType | T_str | T_int | T_float | T_bool | T_list | T_dict | T_object

fun type_of :: "pyval \<Rightarrow> pytype" where
  "type_of PNone = T_NoneType"
| "type_of (PStr s) = T_str"
| "type_of (PInt i) = T_int"
| "type_of (PFloat f) = T_float"
| "type_of (PBool b) = T_bool"
| "type_of (PList xs) = T_list"
| "type_of (PDict kvs) = T_dict"
| "type_of (PObject s) = T_object"

text \<open>
  Python's \<open>isinstance\<close>: the class of the value, or a base class of it. Among the
  classes that the codec tests, the only subclass relation is \<open>bool\<close> below \<open>int\<close>.
\<close>

definition isinstance :: "pyval \<Rightarrow> pytype \<Rightarrow> bool" where
  "isinstance v t \<longleftrightarrow> type_of v = t \<or> (type_of v = T_bool \<and> t = T_int)"

text \<open>The payload of a value, read in a branch that has tested its class.\<close>

fun str_payload :: "pyval \<Rightarrow> string" where
  "str_payload (PStr s) = s"
| "str_payload _ = []"

text \<open>An \<open>int\<close> payload; \<open>True\<close> and \<open>False\<close> are the integers 1 and 0.\<close>

fun int_payload :: "pyval \<Rightarrow> int" where
  "int_payload (PInt i) = i"
| "int_payload (PBool b) = (if b then 1 else 0)"
| "int_payload _ = 0"

fun float_payload :: "pyval \<Rightarrow> pyfloat" where
  "float_payload (PFloat f) = f"
| "float_payload _ = 0"

fun bool_payload :: "pyval \<Rightarrow> bool" where
  "bool_payload (PBool b) = b"
| "bool_payload _ = False"

fun list_items :: "pyval \<Rightarrow> pyval list" where
  "list_items (PList xs) = xs"
| "list_items _ = []"

fun dict_items :: "pyval \<Rightarrow> (string \<times> pyval) list" where
  "dict_items (PDict kvs) = kvs"
| "dict_items _ = []"

text \<open>
  \<open>str(value)\<close> for a value of a class outside the codec's set; no other value reaches
  the branch that calls it.
\<close>

fun py_str :: "pyval \<Rightarrow> string" where
  "py_str (PObject s) = s"
| "py_str _ = []"

section \<open>Exceptions\<close>

text \<open>
  An exception is its class name, whether that class derives from \<open>Exception\<close> (and
  not only from \<open>BaseException\<close>), and the text \<open>str(e)\<close>.
\<close>

datatype pyexc = PyExc (exc_class: string) (is_Exception: bool) (exc_str: string)

fun digits :: "nat \<Rightarrow> string" where
  "digits n =
     (if n < 10 then [''0123456789'' ! n]
      else digits (n div 10) @ [''0123456789'' ! (n mod 10)])"

declare digits.simps [simp del]

definition show_int :: "int \<Rightarrow> string" where
  "show_int i = (if i < 0 then CHR ''-'' # digits (nat (- i)) else digits (nat i))"

section \<open>The wire value\<close>

text \<open>
  Modelled from the spec: the message class \<open>executor_pb2.Value\<close> is generated from
  \<open>proto/executor.proto\<close>, which is not among the sources. The spec's data model gives
  its shape: a tagged union of string, integer (64-bit signed), float (double
  precision), boolean, null, list and string-keyed map. \<open>Unset\<close> is the message in
  which no member of the union is set, as \<open>executor_pb2.Value()\<close> creates it.
\<close>

datatype wire =
    Unset
  | StrValue string
  | IntValue "64 word"
  | FloatValue pyfloat
  | BoolValue bool
  | NullValue
  | ListValue "wire list"
  | MapValue "(string \<times> wire) list"

fun WhichOneof :: "wire \<Rightarrow> string option" where
  "WhichOneof Unset = None"
| "WhichOneof (StrValue s) = Some ''str_value''"
| "WhichOneof (IntValue i) = Some ''int_value''"
| "WhichOneof (FloatValue f) = Some ''float_value''"
| "WhichOneof (BoolValue b) = Some ''bool_value''"
| "WhichOneof NullValue = Some ''null_value''"
| "WhichOneof (ListValue ws) = Some ''list_value''"
| "WhichOneof (MapValue kws) = Some ''map_value''"

text \<open>Reading a member that is not the one set gives the member's default.\<close>

fun str_value :: "wire \<Rightarrow> string" where
  "str_value (StrValue s) = s"
| "str_value _ = []"

fun int_value :: "wire \<Rightarrow> int" where
  "int_value (IntValue i) = sint i"
| "int_value _ = 0"

fun float_value :: "wire \<Rightarrow> pyfloat" where
  "float_value (FloatValue f) = f"
| "float_value _ = 0"

fun bool_value :: "wire \<Rightarrow> bool" where
  "bool_value (BoolValue b) = b"
| "bool_value _ = False"

fun list_values :: "wire \<Rightarrow> wire list" where
  "list_values (ListValue ws) = ws"
| "list_values _ = []"

fun map_fields :: "wire \<Rightarrow> (string \<times> wire) list" where
  "map_fields (MapValue kws) = kws"
| "map_fields _ = []"

text \<open>
  Assignments to the members. Setting a member of the union replaces whichever was
  set. An integer outside the signed 64-bit range is refused with \<open>ValueError\<close>.
  Reading \<open>result.list_value\<close> or \<open>result.map_value.fields\<close> does not set the member:
  it becomes the one set when the first element is stored in it. The store
  \<open>struct[k] = w\<close> keeps the item under its key, as the spec describes the encoding
  of a mapping.
\<close>

definition set_null_value :: "wire \<Rightarrow> wire" where
  "set_null_value r = NullValue"

definition set_str_value :: "wire \<Rightarrow> string \<Rightarrow> wire" where
  "set_str_value r s = StrValue s"

definition set_int_value :: "wire \<Rightarrow> int \<Rightarrow> pyexc + wire" where
  "set_int_value r i =
     (if - (2 ^ 63) \<le> i \<and> i < 2 ^ 63 then Inr (IntValue (word_of_int i))
      else Inl (PyExc ''ValueError'' True (''Value out of range: '' @ show_int i)))"

definition set_float_value :: "wire \<Rightarrow> pyfloat \<Rightarrow> wire" where
  "set_float_value r f = FloatValue f"

definition set_bool_value :: "wire \<Rightarrow> bool \<Rightarrow> wire" where
  "set_bool_value r b = BoolValue b"

definition values_append :: "wire \<Rightarrow> wire \<Rightarrow> wire" where
  "values_append r w = ListValue (list_values r @ [w])"

definition fields_setitem :: "wire \<Rightarrow> string \<Rightarrow> wire \<Rightarrow> wire" where
  "fields_setitem r k w = MapValue (AList.update k w (map_fields r))"

section \<open>The value codec\<close>

text \<open>
  \<open>protobuf_to_python\<close>, branch by branch as the source tests \<open>WhichOneof\<close>. The dict
  comprehension stores the items one after the other.
\<close>

definition dict_of_items :: "(string \<times> 'a) list \<Rightarrow> (string \<times> 'a) list" where
  "dict_of_items kvs = foldl (\<lambda>d (k, v). AList.update k v d) [] kvs"

function protobuf_to_python :: "wire \<Rightarrow> pyval" where
  "protobuf_to_python value =
     (if WhichOneof value = Some ''str_value'' then PStr (str_value value)
      else if WhichOneof value = Some ''int_value'' then PInt (int_value value)
      else if WhichOneof value = Some ''float_value'' then PFloat (float_value value)
      else if WhichOneof value = Some ''bool_value'' then PBool (bool_value value)
      else if WhichOneof value = Some ''null_value'' then PNone
      else if WhichOneof value = Some ''list_value'' then
        PList (map protobuf_to_python (list_values value))
      else if WhichOneof value = Some ''map_value'' then
        PDict (dict_of_items (map (\<lambda>(k, v). (k, protobuf_to_python v)) (map_fields value)))
      else PNone)"
  by pat_completeness auto
termination
proof -
  have in_list: "size w < size v" if "w \<in> set (list_values v)" for w v
    using that by (cases v) (auto simp: less_Suc_eq_le size_list_estimation')
  have in_map: "size w < size v" if "(k, w) \<in> set (map_fields v)" for k w v
  proof (cases v)
    case (MapValue kws)
    with that have "(k, w) \<in> set kws" by simp
    then have "size_prod (\<lambda>x. 0) size (k, w) \<le> size_list (size_prod (\<lambda>x. 0) size) kws"
      by (rule size_list_estimation') simp
    with MapValue show ?thesis by simp
  qed (use that in auto)
  show ?thesis
    by (relation "measure size") (auto simp: in_list in_map)
qed

declare protobuf_to_python.simps [simp del]

text \<open>
  \<open>python_to_protobuf\<close>, with the tests in the order of the source: \<open>None\<close>, \<open>str\<close>,
  \<open>int\<close>, \<open>float\<close>, \<open>bool\<close>, \<open>list\<close>, \<open>dict\<close>, anything else. The two loops store the
  encoded elements one by one in the message; an element whose encoding raises ends
  the loop with that exception.
\<close>

fun append_all :: "wire \<Rightarrow> (pyexc + wire) list \<Rightarrow> pyexc + wire" where
  "append_all r [] = Inr r"
| "append_all r (Inl e # rest) = Inl e"
| "append_all r (Inr w # rest) = append_all (values_append r w) rest"

fun setitem_all :: "wire \<Rightarrow> (string \<times> (pyexc + wire)) list \<Rightarrow> pyexc + wire" where
  "setitem_all r [] = Inr r"
| "setitem_all r ((k, Inl e) # rest) = Inl e"
| "setitem_all r ((k, Inr w) # rest) = setitem_all (fields_setitem r k w) rest"

function python_to_protobuf :: "pyval \<Rightarrow> pyexc + wire" where
  "python_to_protobuf value =
     (if value = PNone then Inr (set_null_value Unset)
      else if isinstance value T_str then Inr (set_str_value Unset (str_payload value))
      else if isinstance value T_int then set_int_value Unset (int_payload value)
      else if isinstance value T_float then Inr (set_float_value Unset (float_payload value))
      else if isinstance value T_bool then Inr (set_bool_value Unset (bool_payload value))
      else if isinstance value T_list then
        append_all Unset (map python_to_protobuf (list_items value))
      else if isinstance value T_dict then
        setitem_all Unset (map (\<lambda>(k, v). (k, python_to_protobuf v)) (dict_items value))
      else Inr (set_str_value Unset (py_str value)))"
  by pat_completeness auto
termination
proof -
  have in_list: "size x < size v" if "x \<in> set (list_items v)" for x v
    using that by (cases v) (auto simp: less_Suc_eq_le size_list_estimation')
  have in_dict: "size x < size v" if "(k, x) \<in> set (dict_items v)" for k x v
  proof (cases v)
    case (PDict kvs)
    with that have "(k, x) \<in> set kvs" by simp
    then have "size_prod (\<lambda>x. 0) size (k, x) \<le> size_list (size_prod (\<lambda>x. 0) size) kvs"
      by (rule size_list_estimation') simp
    with PDict show ?thesis by simp
  qed (use that in auto)
  show ?thesis
    by (relation "measure size") (auto simp: in_list in_dict)
qed

declare python_to_protobuf.simps [simp del]

section \<open>The executor\<close>

text \<open>
  The request and response messages, as \<open>Execute\<close> reads and builds them. A message
  field of the response that the constructor is not given stays unset (\<open>result\<close>) or at
  its default (\<open>logs\<close> empty, \<open>error\<close> the empty string).
\<close>

record ExecuteRequest =
  code :: string
  request_context :: "(string \<times> wire) list"

record ExecuteResponse =
  success :: bool
  result :: "wire option"
  logs :: "string list"
  error :: string

text \<open>
  The servicer holds the registry \<open>go_functions\<close>, a dict from a name to a callable.
  To the codec a callable is an object of another class.
\<close>

record PythonExecutorServicer =
  go_functions :: "(string \<times> pyval) list"

definition register_go_function ::
  "PythonExecutorServicer \<Rightarrow> string \<Rightarrow> pyval \<Rightarrow> PythonExecutorServicer" where
  "register_go_function self name func =
     self\<lparr>go_functions := AList.update name func (go_functions self)\<rparr>"

text \<open>
  The dict \<open>exec_globals\<close> that the code runs in. Its entry \<open>__builtins__\<close> is the table
  of the allowed built-ins; then come the registered callables, then the decoded
  context, each stored under its name and replacing what the name held. A built-in
  is an object of another class; its text stands for what \<open>str\<close> gives (the text of
  the \<open>print\<close> lambda, which names an address, is shortened).
\<close>

type_synonym scope = "string \<rightharpoonup> pyval"

definition builtins_table :: "(string \<times> pyval) list" where
  "builtins_table =
     [(''print'', PObject ''<function <lambda>>''),
      (''len'', PObject ''<built-in function len>''),
      (''range'', PObject ''<class 'range'>''),
      (''str'', PObject ''<class 'str'>''),
      (''int'', PObject ''<class 'int'>''),
      (''float'', PObject ''<class 'float'>''),
      (''bool'', PObject ''<class 'bool'>''),
      (''list'', PObject ''<class 'list'>''),
      (''dict'', PObject ''<class 'dict'>''),
      (''tuple'', PObject ''<class 'tuple'>''),
      (''set'', PObject ''<class 'set'>''),
      (''sum'', PObject ''<built-in function sum>''),
      (''min'', PObject ''<built-in function min>''),
      (''max'', PObject ''<built-in function max>''),
      (''abs'', PObject ''<built-in function abs>''),
      (''all'', PObject ''<built-in function all>''),
      (''any'', PObject ''<built-in function any>''),
      (''enumerate'', PObject ''<class 'enumerate'>''),
      (''zip'', PObject ''<class 'zip'>''),
      (''sorted'', PObject ''<built-in function sorted>''),
      (''reversed'', PObject ''<class 'reversed'>''),
      (''map'', PObject ''<class 'map'>''),
      (''filter'', PObject ''<class 'filter'>'')]"

definition initial_globals :: scope where
  "initial_globals = [''__builtins__'' \<mapsto> PDict builtins_table]"

definition register_all :: "(string \<times> pyval) list \<Rightarrow> scope \<Rightarrow> scope" where
  "register_all fs g = fold (\<lambda>(name, func) g. g(name \<mapsto> func)) fs g"

definition inject_context :: "(string \<times> wire) list \<Rightarrow> scope \<Rightarrow> scope" where
  "inject_context cs g = fold (\<lambda>(key, value) g. g(key \<mapsto> protobuf_to_python value)) cs g"

definition exec_globals :: "PythonExecutorServicer \<Rightarrow> ExecuteRequest \<Rightarrow> scope" where
  "exec_globals self request =
     inject_context (request_context request)
       (register_all (go_functions self) initial_globals)"

text \<open>
  \<open>exec\<close> belongs to the host interpreter, so \<open>Execute\<close> takes it as a parameter: an
  evaluator maps the code and the scope to what the evaluation does. It ends with the
  scope as the code left it and the text printed into the capture buffer, or it raises,
  or it does not end.
\<close>

datatype exec_outcome = Finished scope string | Raised pyexc | Diverged

type_synonym evaluator = "string \<Rightarrow> scope \<Rightarrow> exec_outcome"

text \<open>
  What the caller of \<open>Execute\<close> gets. \<open>except Exception\<close> catches the exceptions whose
  class derives from \<open>Exception\<close>; any other leaves \<open>Execute\<close>. The method assigns
  nothing to \<open>self\<close>, so the servicer it returns is the one it was given. The calls to
  the logger are left out.
\<close>

datatype rpc_outcome = Responded ExecuteResponse | Propagated pyexc | NoReturn

definition except_Exception :: "pyexc \<Rightarrow> rpc_outcome" where
  "except_Exception e =
     (if is_Exception e then
        Responded \<lparr>success = False, result = None, logs = [], error = exc_str e\<rparr>
      else Propagated e)"

definition Execute ::
  "evaluator \<Rightarrow> PythonExecutorServicer \<Rightarrow> ExecuteRequest \<Rightarrow>
     PythonExecutorServicer \<times> rpc_outcome" where
  "Execute ev self request =
     (self,
      case ev (code request) (exec_globals self request) of
        Diverged \<Rightarrow> NoReturn
      | Raised e \<Rightarrow> except_Exception e
      | Finished g output \<Rightarrow>
          (let result = (case g ''__result__'' of Some v \<Rightarrow> v | None \<Rightarrow> PNone) in
           case python_to_protobuf result of
             Inl e \<Rightarrow> except_Exception e
           | Inr w \<Rightarrow>
               Responded \<lparr>success = True, result = Some w, logs = [output], error = []\<rparr>))"

section \<open>A reference evaluator\<close>

text \<open>
  To run \<open>Execute\<close> on a concrete request an evaluator is needed. \<open>mini_exec\<close>
  evaluates a small fragment of the language, on one line:
  statements separated by \<open>;\<close>, each of them \<open>name = expr\<close>, \<open>assert expr\<close>, \<open>pass\<close> or
  an expression; an expression is a sum \<open>atom + ... + atom\<close>; an atom is a decimal
  literal, \<open>True\<close>, \<open>False\<close>, \<open>None\<close> or a name. As the interpreter does, it compiles
  the whole text before it runs any of it, looks a name up in the globals and then in
  the table \<open>__builtins__\<close>, and stores an assignment in the globals. \<open>+\<close> adds integers
  (\<open>True\<close> and \<open>False\<close> count as 1 and 0). Text outside the fragment is rejected with
  \<open>SyntaxError\<close> and operands that are not integers with \<open>TypeError\<close>: the theorems
  below run it only on programs of the fragment with integer operands. \<open>assert\<close>
  raises \<open>AssertionError\<close> without looking the name up (CPython 3.9 and later), so the
  restricted built-ins do not change it. The text of a syntax error depends on the
  interpreter's version; one fixed text stands for it.
\<close>

datatype token = Tok_name string | Tok_num nat | Tok_sym char

definition flush_word :: "string \<Rightarrow> string list" where
  "flush_word cur = (if cur = [] then [] else [cur])"

fun split_words :: "string \<Rightarrow> string \<Rightarrow> string list" where
  "split_words cur [] = flush_word cur"
| "split_words cur (c # cs) =
     (if c = CHR '' '' then flush_word cur @ split_words [] cs
      else if c \<in> set ''=+;'' then flush_word cur @ [c] # split_words [] cs
      else split_words (cur @ [c]) cs)"

definition is_digit :: "char \<Rightarrow> bool" where
  "is_digit c \<longleftrightarrow> c \<in> set ''0123456789''"

definition is_ident_start :: "char \<Rightarrow> bool" where
  "is_ident_start c \<longleftrightarrow>
     c \<in> set ''abcdefghijklmnopqrstuvwxyzABCDEFGHIJKLMNOPQRSTUVWXYZ_''"

definition digit_val :: "char \<Rightarrow> nat" where
  "digit_val c = length (takeWhile (\<lambda>d. d \<noteq> c) ''0123456789'')"

definition nat_of_digits :: "string \<Rightarrow> nat" where
  "nat_of_digits w = foldl (\<lambda>n c. 10 * n + digit_val c) 0 w"

definition py_keywords :: "string list" where
  "py_keywords =
     [''False'', ''None'', ''True'', ''and'', ''as'', ''assert'', ''async'', ''await'',
      ''break'', ''class'', ''continue'', ''def'', ''del'', ''elif'', ''else'', ''except'',
      ''finally'', ''for'', ''from'', ''global'', ''if'', ''import'', ''in'', ''is'',
      ''lambda'', ''nonlocal'', ''not'', ''or'', ''pass'', ''raise'', ''return'', ''try'',
      ''while'', ''with'', ''yield'']"

text \<open>
  A word is a symbol, a decimal literal (no leading zero unless it is all zeros) or
  an identifier.
\<close>

definition classify :: "string \<Rightarrow> token option" where
  "classify w =
     (if w = [] then None
      else if w \<in> set [''='', ''+'', '';''] then Some (Tok_sym (hd w))
      else if list_all is_digit w then
        (if hd w \<noteq> CHR ''0'' \<or> list_all (\<lambda>c. c = CHR ''0'') w
         then Some (Tok_num (nat_of_digits w)) else None)
      else if is_ident_start (hd w) \<and> list_all (\<lambda>c. is_ident_start c \<or> is_digit c) w
        then Some (Tok_name w)
      else None)"

fun all_some :: "'a option list \<Rightarrow> 'a list option" where
  "all_some [] = Some []"
| "all_some (None # xs) = None"
| "all_some (Some x # xs) = (case all_some xs of None \<Rightarrow> None | Some ys \<Rightarrow> Some (x # ys))"

definition tokenize :: "string \<Rightarrow> token list option" where
  "tokenize src = all_some (map classify (split_words [] src))"

datatype atom = Const pyval | Var string

datatype expr = Atom atom | Add expr atom

datatype stmt = Assign string expr | Assert expr | ExprStmt expr | Pass

fun parse_atom :: "token \<Rightarrow> atom option" where
  "parse_atom (Tok_num n) = Some (Const (PInt (int n)))"
| "parse_atom (Tok_name n) =
     (if n = ''True'' then Some (Const (PBool True))
      else if n = ''False'' then Some (Const (PBool False))
      else if n = ''None'' then Some (Const PNone)
      else if n \<in> set py_keywords then None
      else Some (Var n))"
| "parse_atom (Tok_sym c) = None"

fun parse_rest :: "expr \<Rightarrow> token list \<Rightarrow> expr option" where
  "parse_rest e [] = Some e"
| "parse_rest e (Tok_sym c # t # rest) =
     (if c = CHR ''+'' then
        (case parse_atom t of None \<Rightarrow> None | Some a \<Rightarrow> parse_rest (Add e a) rest)
      else None)"
| "parse_rest e _ = None"

fun parse_expr :: "token list \<Rightarrow> expr option" where
  "parse_expr [] = None"
| "parse_expr (t # rest) =
     (case parse_atom t of None \<Rightarrow> None | Some a \<Rightarrow> parse_rest (Atom a) rest)"

definition parse_stmt :: "token list \<Rightarrow> stmt option" where
  "parse_stmt ts =
     (if ts = [Tok_name ''pass''] then Some Pass
      else if ts \<noteq> [] \<and> hd ts = Tok_name ''assert'' then map_option Assert (parse_expr (tl ts))
      else case ts of
        Tok_name n # Tok_sym c # rest \<Rightarrow>
          (if c = CHR ''='' \<and> n \<notin> set py_keywords then map_option (Assign n) (parse_expr rest)
           else map_option ExprStmt (parse_expr ts))
      | _ \<Rightarrow> map_option ExprStmt (parse_expr ts))"

fun split_stmts :: "token list \<Rightarrow> token list \<Rightarrow> token list list" where
  "split_stmts cur [] = [cur]"
| "split_stmts cur (t # ts) =
     (if t = Tok_sym CHR '';'' then cur # split_stmts [] ts
      else split_stmts (cur @ [t]) ts)"

text \<open>A line may end with one \<open>;\<close>; the empty text is the empty program.\<close>

definition parse_program :: "token list \<Rightarrow> stmt list option" where
  "parse_program ts =
     (if ts = [] then Some []
      else let segs = split_stmts [] ts;
               segs' = (if last segs = [] \<and> 1 < length segs then butlast segs else segs)
           in all_some (map parse_stmt segs'))"

definition SyntaxError :: pyexc where
  "SyntaxError = PyExc ''SyntaxError'' True ''invalid syntax (<string>, line 1)''"

definition IndentationError :: pyexc where
  "IndentationError = PyExc ''IndentationError'' True ''unexpected indent (<string>, line 1)''"

definition NameError :: "string \<Rightarrow> pyexc" where
  "NameError n = PyExc ''NameError'' True (''name '' @ [CHR 0x27] @ n @ [CHR 0x27] @ '' is not defined'')"

definition TypeError :: pyexc where
  "TypeError = PyExc ''TypeError'' True ''unsupported operand type(s) for +''"

definition AssertionError :: pyexc where
  "AssertionError = PyExc ''AssertionError'' True []"

definition compile_src :: "string \<Rightarrow> pyexc + stmt list" where
  "compile_src src =
     (case tokenize src of
        None \<Rightarrow> Inl SyntaxError
      | Some ts \<Rightarrow>
          if ts \<noteq> [] \<and> hd src = CHR '' '' then Inl IndentationError
          else (case parse_program ts of None \<Rightarrow> Inl SyntaxError | Some p \<Rightarrow> Inr p))"

text \<open>A name is looked up in the globals, then in the built-ins.\<close>

definition load_name :: "scope \<Rightarrow> string \<Rightarrow> pyval option" where
  "load_name g n =
     (case g n of
        Some v \<Rightarrow> Some v
      | None \<Rightarrow> (case g ''__builtins__'' of Some (PDict tbl) \<Rightarrow> map_of tbl n | _ \<Rightarrow> None))"

fun eval_atom :: "scope \<Rightarrow> atom \<Rightarrow> pyexc + pyval" where
  "eval_atom g (Const v) = Inr v"
| "eval_atom g (Var n) = (case load_name g n of None \<Rightarrow> Inl (NameError n) | Some v \<Rightarrow> Inr v)"

definition py_add :: "pyval \<Rightarrow> pyval \<Rightarrow> pyexc + pyval" where
  "py_add a b =
     (if isinstance a T_int \<and> isinstance b T_int
      then Inr (PInt (int_payload a + int_payload b)) else Inl TypeError)"

fun eval_expr :: "scope \<Rightarrow> expr \<Rightarrow> pyexc + pyval" where
  "eval_expr g (Atom a) = eval_atom g a"
| "eval_expr g (Add e a) =
     (case eval_expr g e of
        Inl x \<Rightarrow> Inl x
      | Inr l \<Rightarrow> (case eval_atom g a of Inl x \<Rightarrow> Inl x | Inr r \<Rightarrow> py_add l r))"

text \<open>
  Truth of a value, for \<open>assert\<close>. An object of another class counts as true, the
  default of a class that defines neither \<open>__bool__\<close> nor \<open>__len__\<close>.
\<close>

fun truthy :: "pyval \<Rightarrow> bool" where
  "truthy PNone = False"
| "truthy (PStr s) = (s \<noteq> [])"
| "truthy (PInt i) = (i \<noteq> 0)"
| "truthy (PFloat f) = (f \<noteq> 0 \<and> f \<noteq> 0x8000000000000000)"
| "truthy (PBool b) = b"
| "truthy (PList xs) = (xs \<noteq> [])"
| "truthy (PDict kvs) = (kvs \<noteq> [])"
| "truthy (PObject s) = True"

fun run_stmts :: "stmt list \<Rightarrow> scope \<Rightarrow> exec_outcome" where
  "run_stmts [] g = Finished g []"
| "run_stmts (Assign n e # rest) g =
     (case eval_expr g e of Inl x \<Rightarrow> Raised x | Inr v \<Rightarrow> run_stmts rest (g(n \<mapsto> v)))"
| "run_stmts (Assert e # rest) g =
     (case eval_expr g e of
        Inl x \<Rightarrow> Raised x
      | Inr v \<Rightarrow> if truthy v then run_stmts rest g else Raised AssertionError)"
| "run_stmts (ExprStmt e # rest) g =
     (case eval_expr g e of Inl x \<Rightarrow> Raised x | Inr v \<Rightarrow> run_stmts rest g)"
| "run_stmts (Pass # rest) g = run_stmts rest g"

definition mini_exec :: evaluator where
  "mini_exec src g = (case compile_src src of Inl x \<Rightarrow> Raised x | Inr p \<Rightarrow> run_stmts p g)"


section \<open>Classes of native values\<close>


text \<open>
  The values built from \<open>None\<close>, strings, 64-bit integers and floats by lists and
  dicts that are not empty (the keys of a dict are distinct, as in any dict).
\<close>

fun plain :: "pyval \<Rightarrow> bool" where
  "plain PNone \<longleftrightarrow> True"
| "plain (PStr s) \<longleftrightarrow> True"
| "plain (PInt i) \<longleftrightarrow> - (2 ^ 63) \<le> i \<and> i < 2 ^ 63"
| "plain (PFloat f) \<longleftrightarrow> True"
| "plain (PBool b) \<longleftrightarrow> False"
| "plain (PList xs) \<longleftrightarrow> xs \<noteq> [] \<and> (\<forall>x \<in> set xs. plain x)"
| "plain (PDict kvs) \<longleftrightarrow>
     kvs \<noteq> [] \<and> distinct (map fst kvs) \<and> (\<forall>x \<in> set (map snd kvs). plain x)"
| "plain (PObject s) \<longleftrightarrow> False"

text \<open>Encoding and then decoding; \<open>None\<close> when the encoding raises.\<close>

definition decode_encode :: "pyval \<Rightarrow> pyval option" where
  "decode_encode x =
     (case python_to_protobuf x of Inl e \<Rightarrow> None | Inr w \<Rightarrow> Some (protobuf_to_python w))"

section \<open>The codec, constructor by constructor\<close>

lemma protobuf_to_python_eqs:
  "protobuf_to_python Unset = PNone"
  "protobuf_to_python (StrValue s) = PStr s"
  "protobuf_to_python (IntValue i) = PInt (sint i)"
  "protobuf_to_python (FloatValue f) = PFloat f"
  "protobuf_to_python (BoolValue b) = PBool b"
  "protobuf_to_python NullValue = PNone"
  "protobuf_to_python (ListValue ws) = PList (map protobuf_to_python ws)"
  "protobuf_to_python (MapValue kws) =
     PDict (dict_of_items (map (\<lambda>(k, v). (k, protobuf_to_python v)) kws))"
  by (simp_all add: protobuf_to_python.simps)

lemma python_to_protobuf_eqs:
  "python_to_protobuf PNone = Inr NullValue"
  "python_to_protobuf (PStr s) = Inr (StrValue s)"
  "python_to_protobuf (PInt i) = set_int_value Unset i"
  "python_to_protobuf (PFloat f) = Inr (FloatValue f)"
  "python_to_protobuf (PBool b) = set_int_value Unset (if b then 1 else 0)"
  "python_to_protobuf (PList xs) = append_all Unset (map python_to_protobuf xs)"
  "python_to_protobuf (PDict kvs) =
     setitem_all Unset (map (\<lambda>(k, v). (k, python_to_protobuf v)) kvs)"
  "python_to_protobuf (PObject s) = Inr (StrValue s)"
  by (simp_all add: python_to_protobuf.simps isinstance_def set_null_value_def
      set_str_value_def set_float_value_def set_bool_value_def)

lemma append_all_Inr:
  "append_all r (map Inr ws) = Inr (if ws = [] then r else ListValue (list_values r @ ws))"
  by (induction ws arbitrary: r) (simp_all add: values_append_def)

lemma update_fresh: "k \<notin> fst ` set al \<Longrightarrow> AList.update k v al = al @ [(k, v)]"
  by (induction al) auto

lemma setitem_all_Inr:
  "distinct (map fst (map_fields r) @ map fst kws) \<Longrightarrow>
   setitem_all r (map (\<lambda>(k, w). (k, Inr w)) kws) =
     Inr (if kws = [] then r else MapValue (map_fields r @ kws))"
proof (induction kws arbitrary: r)
  case Nil
  then show ?case by simp
next
  case (Cons kw kws)
  obtain k w where kw: "kw = (k, w)" by (cases kw)
  from Cons.prems kw have fresh: "k \<notin> fst ` set (map_fields r)" by auto
  have fields: "map_fields (fields_setitem r k w) = map_fields r @ [(k, w)]"
    by (simp add: fields_setitem_def update_fresh [OF fresh])
  from Cons.prems kw have "distinct (map fst (map_fields (fields_setitem r k w)) @ map fst kws)"
    by (auto simp: fields)
  from Cons.IH [OF this] show ?case
    by (simp add: kw fields) (simp add: fields_setitem_def update_fresh [OF fresh])
qed

lemma foldl_update_distinct:
  "distinct (map fst d @ map fst kvs) \<Longrightarrow>
   foldl (\<lambda>d (k, v). AList.update k v d) d kvs = d @ kvs"
proof (induction kvs arbitrary: d)
  case Nil
  then show ?case by simp
next
  case (Cons kv kvs)
  obtain k v where kv: "kv = (k, v)" by (cases kv)
  from Cons.prems kv have fresh: "k \<notin> fst ` set d" by auto
  from Cons.prems kv have "distinct (map fst (d @ [(k, v)]) @ map fst kvs)" by auto
  from Cons.IH [OF this] show ?case
    by (simp add: kv update_fresh [OF fresh])
qed

lemma dict_of_items_distinct: "distinct (map fst kvs) \<Longrightarrow> dict_of_items kvs = kvs"
  using foldl_update_distinct [of "[]" kvs] by (simp add: dict_of_items_def)

lemma sint_int64: "- (2 ^ 63) \<le> i \<Longrightarrow> i < 2 ^ 63 \<Longrightarrow> sint (word_of_int i :: 64 word) = i"
  by (simp add: signed_of_int signed_take_bit_int_eq_self)








lemma roundtrip_plain:
  "plain x \<Longrightarrow> \<exists>w. python_to_protobuf x = Inr w \<and> protobuf_to_python w = x \<and> w \<noteq> Unset"
proof (induction x rule: plain.induct)
  case (6 xs)
  define ws where "ws = map (\<lambda>x. projr (python_to_protobuf x)) xs"
  from 6 have each: "\<forall>x \<in> set xs. python_to_protobuf x = Inr (projr (python_to_protobuf x)) \<and>
      protobuf_to_python (projr (python_to_protobuf x)) = x"
    by fastforce
  then have enc: "map python_to_protobuf xs = map Inr ws"
    by (simp add: ws_def)
  from each have dec: "map protobuf_to_python ws = xs"
    by (simp add: ws_def map_idI)
  from 6 have "ws \<noteq> []" by (simp add: ws_def)
  then show ?case
    by (simp add: python_to_protobuf_eqs enc append_all_Inr protobuf_to_python_eqs dec)
next
  case (7 kvs)
  define kws where "kws = map (\<lambda>(k, x). (k, projr (python_to_protobuf x))) kvs"
  from 7 have each: "\<forall>(k, x) \<in> set kvs. python_to_protobuf x = Inr (projr (python_to_protobuf x)) \<and>
      protobuf_to_python (projr (python_to_protobuf x)) = x"
    by fastforce
  then have enc: "map (\<lambda>(k, v). (k, python_to_protobuf v)) kvs = map (\<lambda>(k, w). (k, Inr w)) kws"
    by (auto simp: kws_def)
  from each have dec: "map (\<lambda>(k, v). (k, protobuf_to_python v)) kws = kvs"
    by (auto simp: kws_def intro!: map_idI)
  have keys: "map fst kws = map fst kvs"
    by (auto simp: kws_def)
  from 7 have ne: "kws \<noteq> []" and dist: "distinct (map fst kws)"
    by (simp_all add: keys) (simp add: kws_def)
  from dist have "setitem_all Unset (map (\<lambda>(k, w). (k, Inr w)) kws) = Inr (MapValue kws)"
    using setitem_all_Inr [of Unset kws] ne by simp
  moreover from 7 have "dict_of_items kvs = kvs"
    by (simp add: dict_of_items_distinct)
  ultimately show ?case
    by (simp add: python_to_protobuf_eqs enc protobuf_to_python_eqs dec)
qed (simp_all add: python_to_protobuf_eqs protobuf_to_python_eqs set_int_value_def sint_int64)

text \<open>
  On the plain values the round trip holds: decoding the encoding gives the value
  back.
\<close>

lemma decode_encode_plain: "plain x \<Longrightarrow> decode_encode x = Some x"
  using roundtrip_plain [of x] by (auto simp: decode_encode_def)

section \<open>Claims about the codec\<close>

text \<open>
  C2. The claim: encoding a boolean gives the boolean member of the wire value, never
  the integer one. The source tests \<open>isinstance(value, int)\<close> before
  \<open>isinstance(value, bool)\<close>, and a boolean is an instance of \<open>int\<close>: both booleans
  leave \<open>python_to_protobuf\<close> as the integers 1 and 0, and the boolean branch is never
  taken.
\<close>

theorem bool_encodes_as_int:
  "python_to_protobuf (PBool True) = Inr (IntValue 1) \<and>
   python_to_protobuf (PBool False) = Inr (IntValue 0) \<and>
   WhichOneof (IntValue 1) = Some ''int_value''"
  by (simp add: python_to_protobuf_eqs set_int_value_def)

text \<open>
  C3. The claim: decoding the encoding of a value gives the value back, for every
  string, integer, float, boolean, null and every nesting of lists and dicts of them.
  At the empty list the encoding is the message with no member set, which decodes to
  \<open>None\<close>; the empty dict does the same, and \<open>True\<close> comes back as the integer 1.
  (\<open>decode_encode_plain\<close> above is the round trip on the values without booleans and
  without empty containers.)
\<close>

theorem roundtrip_fails_on_empty_list:
  "decode_encode (PList []) = Some PNone \<and>
   decode_encode (PDict []) = Some PNone \<and>
   decode_encode (PBool True) = Some (PInt 1)"
  by (simp add: decode_encode_def python_to_protobuf_eqs protobuf_to_python_eqs
      set_int_value_def)




text \<open>
  C5. When no member of the wire value is set, \<open>protobuf_to_python\<close> returns \<open>None\<close>; it
  has no branch that raises, so it returns a value on every wire value.
\<close>

theorem decode_unset_is_None:
  "WhichOneof value = None \<Longrightarrow> protobuf_to_python value = PNone"
  by (cases "value") (simp_all add: protobuf_to_python_eqs)

theorem decode_unset_is_None_witness:
  "WhichOneof Unset = None \<and> protobuf_to_python Unset = PNone"
proof -
  have h: "WhichOneof Unset = None" by simp
  show ?thesis
    using h decode_unset_is_None [OF h] by simp
qed



section \<open>The scope of a call\<close>

lemma fold_upd_lookup:
  "fold (\<lambda>(k, v) g. g(k \<mapsto> f v)) cs g k =
     (case map_of (rev cs) k of None \<Rightarrow> g k | Some v \<Rightarrow> Some (f v))"
proof (induction cs arbitrary: g)
  case Nil
  then show ?case by simp
next
  case (Cons c cs)
  obtain k' v' where c: "c = (k', v')" by (cases c)
  have "fold (\<lambda>(k, v) g. g(k \<mapsto> f v)) (c # cs) g k =
        fold (\<lambda>(k, v) g. g(k \<mapsto> f v)) cs (g(k' \<mapsto> f v')) k"
    by (simp only: c fold_simps prod.case)
  also have "\<dots> =
      (case map_of (rev cs) k of None \<Rightarrow> (g(k' \<mapsto> f v')) k | Some v \<Rightarrow> Some (f v))"
    by (rule Cons.IH)
  also have "\<dots> = (case map_of (rev (c # cs)) k of None \<Rightarrow> g k | Some v \<Rightarrow> Some (f v))"
    by (simp add: c map_add_def split: option.splits)
  finally show ?case .
qed

lemma inject_context_bound:
  assumes "distinct (map fst cs)" and "(k, w) \<in> set cs"
  shows "inject_context cs g k = Some (protobuf_to_python w)"
proof -
  from assms have "map_of (rev cs) k = Some w"
    by (intro map_of_is_SomeI) (simp_all add: rev_map [symmetric])
  then show ?thesis
    by (simp add: inject_context_def fold_upd_lookup)
qed

lemma inject_context_other: "k \<notin> fst ` set cs \<Longrightarrow> inject_context cs g k = g k"
proof -
  assume "k \<notin> fst ` set cs"
  then have "map_of (rev cs) k = None"
    by (simp add: map_of_eq_None_iff)
  then show ?thesis
    by (simp add: inject_context_def fold_upd_lookup)
qed

lemma register_all_other: "k \<notin> fst ` set fs \<Longrightarrow> register_all fs g k = g k"
proof -
  assume "k \<notin> fst ` set fs"
  then have "map_of (rev fs) k = None"
    by (simp add: map_of_eq_None_iff)
  then show ?thesis
    using fold_upd_lookup [of "\<lambda>v. v" fs g k] by (simp add: register_all_def)
qed

lemma load_name_bound: "g k = Some v \<Longrightarrow> load_name g k = Some v"
  by (simp add: load_name_def)

lemma load_name_cong:
  "g k = h k \<Longrightarrow> g ''__builtins__'' = h ''__builtins__'' \<Longrightarrow> load_name g k = load_name h k"
  by (simp add: load_name_def cong: option.case_cong)

text \<open>The reference evaluator on the programs used below.\<close>

lemmas lex_defs = compile_src_def tokenize_def classify_def flush_word_def is_digit_def
  is_ident_start_def nat_of_digits_def digit_val_def parse_program_def parse_stmt_def
  py_keywords_def

lemma compile_result_x_plus_1:
  "compile_src ''result = x + 1'' =
     Inr [Assign ''result'' (Add (Atom (Var ''x'')) (Const (PInt 1)))]"
  by (simp add: lex_defs)

lemma compile_dunder_result_x_plus_1:
  "compile_src ''__result__ = x + 1'' =
     Inr [Assign ''__result__'' (Add (Atom (Var ''x'')) (Const (PInt 1)))]"
  by (simp add: lex_defs)

lemma compile_x_1: "compile_src ''x = 1'' = Inr [Assign ''x'' (Atom (Const (PInt 1)))]"
  by (simp add: lex_defs)



lemma compile_dunder_result_len_plus_1:
  "compile_src ''__result__ = len + 1'' =
     Inr [Assign ''__result__'' (Add (Atom (Var ''len'')) (Const (PInt 1)))]"
  by (simp add: lex_defs)

lemma compile_dunder_result_len:
  "compile_src ''__result__ = len'' = Inr [Assign ''__result__'' (Atom (Var ''len''))]"
  by (simp add: lex_defs)

lemmas run_defs = Execute_def exec_globals_def inject_context_def register_all_def
  initial_globals_def mini_exec_def load_name_def py_add_def isinstance_def
  except_Exception_def python_to_protobuf_eqs protobuf_to_python_eqs set_int_value_def

section \<open>Claims about the executor\<close>

text \<open>
  C1. The claim: for the code \<open>result = x + 1\<close> and the context \<open>x = 41\<close>, the response
  carries the integer 42. \<open>Execute\<close> reads the name \<open>__result__\<close>, not \<open>result\<close>: the
  code binds \<open>result\<close> to 42, \<open>__result__\<close> stays unbound and the response carries the
  null member.
\<close>

theorem result_name_is_not_read:
  "snd (Execute mini_exec \<lparr>go_functions = []\<rparr>
         \<lparr>code = ''result = x + 1'', request_context = [(''x'', IntValue 41)]\<rparr>) =
   Responded \<lparr>success = True, result = Some NullValue, logs = [[]], error = []\<rparr>"
  by (simp add: run_defs compile_result_x_plus_1)

text \<open>
  C1, amended. For the code \<open>__result__ = x + 1\<close> and the context \<open>x = 41\<close>, whatever
  the registry holds, \<open>Execute\<close> responds with success, the integer 42 as result and
  the captured output (empty) as the one log entry.
\<close>

theorem dunder_result_is_read_back:
  "snd (Execute mini_exec self
         \<lparr>code = ''__result__ = x + 1'', request_context = [(''x'', IntValue 41)]\<rparr>) =
   Responded \<lparr>success = True, result = Some (IntValue 42), logs = [[]], error = []\<rparr>"
  by (simp add: run_defs compile_dunder_result_x_plus_1)

text \<open>
  C6. The claim: code that evaluates successfully and never assigns the result
  binding gives success with the null member. The binding is read from the scope,
  which also holds the context: with \<open>__result__\<close> among the context keys, code that
  does not assign it gives the context's value back.
\<close>

theorem context_can_bind_result:
  "snd (Execute mini_exec \<lparr>go_functions = []\<rparr>
         \<lparr>code = ''x = 1'', request_context = [(''__result__'', IntValue 5)]\<rparr>) =
   Responded \<lparr>success = True, result = Some (IntValue 5), logs = [[]], error = []\<rparr>"
  by (simp add: run_defs compile_x_1)

text \<open>
  C6, amended. For every request whose evaluation ends and leaves the scope without a
  binding of \<open>__result__\<close> (neither the code nor the context nor the registry binds
  it), \<open>Execute\<close> responds with success, the null member as result and the captured
  output as the one log entry.
\<close>

theorem missing_result_is_null:
  assumes "ev (code request) (exec_globals self request) = Finished g output"
      and "g ''__result__'' = None"
  shows "snd (Execute ev self request) =
         Responded \<lparr>success = True, result = Some NullValue, logs = [output], error = []\<rparr>"
  using assms by (simp add: Execute_def python_to_protobuf_eqs)

theorem missing_result_is_null_witness:
  "mini_exec (code \<lparr>code = ''x = 1'', request_context = []\<rparr>)
     (exec_globals \<lparr>go_functions = []\<rparr> \<lparr>code = ''x = 1'', request_context = []\<rparr>) =
     Finished ((initial_globals)(''x'' \<mapsto> PInt 1)) [] \<and>
   ((initial_globals)(''x'' \<mapsto> PInt 1)) ''__result__'' = None \<and>
   snd (Execute mini_exec \<lparr>go_functions = []\<rparr> \<lparr>code = ''x = 1'', request_context = []\<rparr>) =
     Responded \<lparr>success = True, result = Some NullValue, logs = [[]], error = []\<rparr>"
proof -
  have h1: "mini_exec (code \<lparr>code = ''x = 1'', request_context = []\<rparr>)
      (exec_globals \<lparr>go_functions = []\<rparr> \<lparr>code = ''x = 1'', request_context = []\<rparr>) =
      Finished ((initial_globals)(''x'' \<mapsto> PInt 1)) []"
    by (simp add: exec_globals_def inject_context_def register_all_def mini_exec_def
        compile_x_1)
  have h2: "((initial_globals)(''x'' \<mapsto> PInt 1)) ''__result__'' = None"
    by (simp add: initial_globals_def)
  show ?thesis
    using h1 h2
      missing_result_is_null [of mini_exec "\<lparr>code = ''x = 1'', request_context = []\<rparr>"
        "\<lparr>go_functions = []\<rparr>" "(initial_globals)(''x'' \<mapsto> PInt 1)" "[]"]
    by simp
qed




text \<open>
  C8. A context key shadows a built-in or a registered callable of the same name,
  for this call only: in the scope of the call the name resolves to the decoded
  context value; \<open>Execute\<close> leaves the servicer, hence the registry, as it was; the
  table of built-ins in the scope is the full table; and in a later call whose
  context lacks the key the name resolves as it does without any context.
\<close>

theorem context_shadows_for_this_call:
  assumes "distinct (map fst (request_context request))"
      and "(k, w) \<in> set (request_context request)"
  shows "load_name (exec_globals self request) k = Some (protobuf_to_python w) \<and>
         fst (Execute ev self request) = self \<and>
         (''__builtins__'' \<notin> fst ` set (request_context request) \<union> fst ` set (go_functions self)
            \<longrightarrow> exec_globals self request ''__builtins__'' = Some (PDict builtins_table)) \<and>
         (k \<notin> fst ` set (request_context request') \<and>
          ''__builtins__'' \<notin> fst ` set (request_context request') \<longrightarrow>
            load_name (exec_globals (fst (Execute ev self request)) request') k =
            load_name (register_all (go_functions self) initial_globals) k)"
proof (intro conjI impI)
  show "load_name (exec_globals self request) k = Some (protobuf_to_python w)"
    using assms by (simp add: exec_globals_def inject_context_bound load_name_bound)
  show "fst (Execute ev self request) = self"
    by (simp add: Execute_def)
  show "exec_globals self request ''__builtins__'' = Some (PDict builtins_table)"
    if "''__builtins__'' \<notin> fst ` set (request_context request) \<union> fst ` set (go_functions self)"
    using that
    by (simp add: exec_globals_def inject_context_other register_all_other initial_globals_def)
  show "load_name (exec_globals (fst (Execute ev self request)) request') k =
        load_name (register_all (go_functions self) initial_globals) k"
    if "k \<notin> fst ` set (request_context request') \<and>
        ''__builtins__'' \<notin> fst ` set (request_context request')"
  proof -
    let ?r = "register_all (go_functions self) initial_globals"
    from that have a: "inject_context (request_context request') ?r k = ?r k"
      by (simp add: inject_context_other)
    from that have b: "inject_context (request_context request') ?r ''__builtins__'' =
        ?r ''__builtins__''"
      by (simp add: inject_context_other)
    have e: "fst (Execute ev self request) = self"
      by (simp add: Execute_def)
    show ?thesis
      unfolding e exec_globals_def by (rule load_name_cong [OF a b])
  qed
qed

theorem context_shadows_for_this_call_witness:
  "distinct (map fst [(''len'', IntValue 7), (''double'', StrValue ''d'')]) \<and>
   (''len'', IntValue 7) \<in> set [(''len'', IntValue 7), (''double'', StrValue ''d'')] \<and>
   load_name
     (exec_globals \<lparr>go_functions = [(''double'', PObject ''<function double>'')]\<rparr>
        \<lparr>code = ''__result__ = len + 1'',
           request_context = [(''len'', IntValue 7), (''double'', StrValue ''d'')]\<rparr>)
     ''len'' = Some (PInt 7) \<and>
   fst (Execute mini_exec \<lparr>go_functions = [(''double'', PObject ''<function double>'')]\<rparr>
          \<lparr>code = ''__result__ = len + 1'',
             request_context = [(''len'', IntValue 7), (''double'', StrValue ''d'')]\<rparr>) =
     \<lparr>go_functions = [(''double'', PObject ''<function double>'')]\<rparr> \<and>
   snd (Execute mini_exec \<lparr>go_functions = [(''double'', PObject ''<function double>'')]\<rparr>
          \<lparr>code = ''__result__ = len + 1'',
             request_context = [(''len'', IntValue 7), (''double'', StrValue ''d'')]\<rparr>) =
     Responded \<lparr>success = True, result = Some (IntValue 8), logs = [[]], error = []\<rparr> \<and>
   snd (Execute mini_exec \<lparr>go_functions = [(''double'', PObject ''<function double>'')]\<rparr>
          \<lparr>code = ''__result__ = len'', request_context = []\<rparr>) =
     Responded \<lparr>success = True, result = Some (StrValue ''<built-in function len>''),
       logs = [[]], error = []\<rparr>"
proof -
  let ?self = "\<lparr>go_functions = [(''double'', PObject ''<function double>'')]\<rparr>"
  let ?cs = "[(''len'', IntValue 7), (''double'', StrValue ''d'')]"
  let ?req = "\<lparr>code = ''__result__ = len + 1'', request_context = ?cs\<rparr>"
  have d: "distinct (map fst (request_context ?req))" by simp
  have m: "(''len'', IntValue 7) \<in> set (request_context ?req)" by simp
  have r1: "snd (Execute mini_exec ?self ?req) =
      Responded \<lparr>success = True, result = Some (IntValue 8), logs = [[]], error = []\<rparr>"
    by (simp add: run_defs compile_dunder_result_len_plus_1)
  have r2: "snd (Execute mini_exec ?self \<lparr>code = ''__result__ = len'', request_context = []\<rparr>) =
      Responded \<lparr>success = True, result = Some (StrValue ''<built-in function len>''),
        logs = [[]], error = []\<rparr>"
    by (simp add: run_defs compile_dunder_result_len builtins_table_def)
  from context_shadows_for_this_call [OF d m, of ?self mini_exec] r1 r2
  show ?thesis
    by (simp add: protobuf_to_python_eqs)
qed

end
